theory Spec2Isabelle
  imports Main "HOL-Library.Sublist"
begin

section \<open>JavaScript strings\<close>

text \<open>
  A JavaScript string is a sequence of UTF-16 code units. The model takes the code units
  U+0000 to U+00FF, which the type \<open>char\<close> enumerates, so that \<open>length\<close> counts what
  \<^verbatim>\<open>.length\<close> counts. On this range \<^verbatim>\<open>toLowerCase\<close> works unit by unit: it maps
  A to Z and the accented capitals U+00C0 to U+00DE (without the sign U+00D7) 32 places up
  and leaves every other unit alone.
\<close>

definition is_upper :: "char \<Rightarrow> bool" where
  "is_upper c =
     (let n = (of_char c :: nat)
      in (65 \<le> n \<and> n \<le> 90) \<or> (192 \<le> n \<and> n \<le> 222 \<and> n \<noteq> 215))"

definition lower_char :: "char \<Rightarrow> char" where
  "lower_char c = (if is_upper c then char_of (of_char c + (32::nat)) else c)"

definition toLowerCase :: "string \<Rightarrow> string" where
  "toLowerCase s = map lower_char s"

text \<open>\<^verbatim>\<open>s.includes(t)\<close>: \<open>t\<close> occurs in \<open>s\<close> as a contiguous run.\<close>

definition js_includes :: "string \<Rightarrow> string \<Rightarrow> bool" where
  "js_includes s t = sublist t s"

text \<open>
  \<^verbatim>\<open>s.split(' ')\<close> cuts at every single space U+0020 and keeps the empty pieces:
  the empty string gives one empty piece, two spaces in a row give an empty piece between
  them. No other white space separates.
\<close>

fun split_space :: "string \<Rightarrow> string list" where
  "split_space [] = [[]]"
| "split_space (c # cs) =
     (if c = CHR '' '' then [] # split_space cs
      else (case split_space cs of
              [] \<Rightarrow> [[c]]
            | w # ws \<Rightarrow> (c # w) # ws))"

text \<open>
  \<^verbatim>\<open>s.trim()\<close> removes white space and line terminators at both ends. Among the
  code units of the model these are TAB, LF, VT, FF, CR, SPACE and NO-BREAK SPACE.
\<close>

definition is_white_space :: "char \<Rightarrow> bool" where
  "is_white_space c = (of_char c \<in> {9, 10, 11, 12, 13, 32, 160 :: nat})"

definition trim :: "string \<Rightarrow> string" where
  "trim s = rev (dropWhile is_white_space (rev (dropWhile is_white_space s)))"

section \<open>Relevance scoring\<close>

text \<open>
  \<^verbatim>\<open>calculateRelevance(query, fields)\<close> runs \<^verbatim>\<open>fields.forEach((field, index) => ...)\<close>
  over a mutable \<^verbatim>\<open>score\<close>. The inner pair of \<^verbatim>\<open>forEach\<close> loops is \<open>word_matches\<close>,
  the callback of the outer loop is \<open>field_step\<close>; an empty field returns at once and leaves
  the score as it is.
\<close>

definition word_matches :: "nat \<Rightarrow> string list \<Rightarrow> string list \<Rightarrow> nat \<Rightarrow> nat" where
  "word_matches weight queryWords fieldWords score =
     fold (\<lambda>queryWord.
            fold (\<lambda>fieldWord sc.
                   if js_includes fieldWord queryWord \<or> js_includes queryWord fieldWord
                   then sc + weight * 2 else sc)
                 fieldWords)
          queryWords score"

definition field_step :: "string \<Rightarrow> nat \<Rightarrow> nat \<times> string \<Rightarrow> nat \<Rightarrow> nat" where
  "field_step queryLower len p score =
     (case p of (index, field) \<Rightarrow>
        if field = [] then score
        else
          let fieldLower = toLowerCase field;
              score1 = (if js_includes fieldLower queryLower
                        then score + (len - index) * 10 else score);
              queryWords = split_space queryLower;
              fieldWords = split_space fieldLower
          in word_matches (len - index) queryWords fieldWords score1)"

definition calculateRelevance :: "string \<Rightarrow> string list \<Rightarrow> nat" where
  "calculateRelevance query fields =
     (let queryLower = toLowerCase query
      in fold (field_step queryLower (length fields)) (enumerate 0 fields) 0)"

text \<open>
  The scoring rule in the words of the specification, for comparison: every field at index
  \<open>i\<close> of \<open>n\<close> adds \<open>(n - i) * 10\<close> when it contains the whole query, and \<open>(n - i) * 2\<close>
  for every pair of a query word and a field word of which one contains the other. How a
  string falls into words is the parameter \<open>wordsOf\<close>.
\<close>

definition pair_matches :: "string list \<Rightarrow> string list \<Rightarrow> nat" where
  "pair_matches queryWords fieldWords =
     length (filter (\<lambda>(queryWord, fieldWord).
                       js_includes fieldWord queryWord \<or> js_includes queryWord fieldWord)
                    (List.product queryWords fieldWords))"

definition spec_field_score ::
  "(string \<Rightarrow> string list) \<Rightarrow> nat \<Rightarrow> nat \<Rightarrow> string \<Rightarrow> string \<Rightarrow> nat" where
  "spec_field_score wordsOf n i query field =
     (let queryLower = toLowerCase query; fieldLower = toLowerCase field
      in (if js_includes fieldLower queryLower then (n - i) * 10 else 0)
         + (n - i) * 2 * pair_matches (wordsOf queryLower) (wordsOf fieldLower))"

definition spec_relevance :: "(string \<Rightarrow> string list) \<Rightarrow> string \<Rightarrow> string list \<Rightarrow> nat" where
  "spec_relevance wordsOf query fields =
     (\<Sum>i<length fields. spec_field_score wordsOf (length fields) i query (fields ! i))"

text \<open>
  Words separated by white space in the usual sense: the non-empty runs of units that are
  not white space.
\<close>

fun split_white_space :: "string \<Rightarrow> string list" where
  "split_white_space [] = [[]]"
| "split_white_space (c # cs) =
     (if is_white_space c then [] # split_white_space cs
      else (case split_white_space cs of
              [] \<Rightarrow> [[c]]
            | w # ws \<Rightarrow> (c # w) # ws))"

definition white_space_words :: "string \<Rightarrow> string list" where
  "white_space_words s = filter (\<lambda>w. w \<noteq> []) (split_white_space s)"

section \<open>The search component\<close>

datatype lang = En | Ar

record localized =
  en :: string
  ar :: string

text \<open>\<^verbatim>\<open>x?.[lang] || ''\<close>: a missing object reads as the empty string.\<close>

definition localize :: "localized option \<Rightarrow> lang \<Rightarrow> string" where
  "localize x l = (case x of None \<Rightarrow> [] | Some t \<Rightarrow> (case l of En \<Rightarrow> en t | Ar \<Rightarrow> ar t))"

text \<open>The fields of the stored records that the search reads.\<close>

record project =
  p_title :: "localized option"
  p_description :: "localized option"
  p_category :: "localized option"
  p_image :: string

record service =
  s_title :: "localized option"
  s_desc :: "localized option"

record communityPost =
  post_title :: string
  post_description :: string
  isApproved :: bool

datatype result_type = ProjectResult | ServiceResult | PostResult

record searchResult =
  r_id :: string
  r_title :: string
  r_description :: string
  r_type :: result_type
  r_category :: "string option"
  r_image :: "string option"
  relevanceScore :: nat

datatype filter_type = AllTypes | ProjectType | ServiceType | PostType

datatype sort_mode = ByRelevance | ByTitle

record filters =
  f_type :: filter_type
  f_category :: string
  f_sortBy :: sort_mode

datatype collection = Projects | Services | CommunityPosts

text \<open>
  What a \<^verbatim>\<open>performSearch\<close> function has captured: the query, the filters and the history
  of the render that created it. The effect hands the function of its own render to the
  timeout, so a search works with these values whatever the state has become since.
\<close>

record closure =
  cl_query :: string
  cl_filters :: filters
  cl_history :: "string list"

text \<open>
  A \<^verbatim>\<open>performSearch\<close> call suspended at an \<^verbatim>\<open>await\<close>: its closure, its local
  \<^verbatim>\<open>results\<close>, and the collections it still has to read, the awaited one first.
\<close>

record flight =
  fl_closure :: closure
  fl_results :: "searchResult list"
  fl_todo :: "collection list"

text \<open>
  The component's \<^verbatim>\<open>useState\<close> cells; \<open>debounceTimer\<close>, the pending timeout set by the
  effect on \<^verbatim>\<open>[searchQuery, filters]\<close> with the closure it will call; and \<open>flights\<close>, the
  searches that have started and not yet ended.
\<close>

record search_state =
  searchQuery :: string
  searchResults :: "searchResult list"
  isSearching :: bool
  showResults :: bool
  searchHistory :: "string list"
  popularSearches :: "string list"
  filters_of :: filters
  debounceTimer :: "closure option"
  flights :: "flight list"

definition initial_search_state :: search_state where
  "initial_search_state =
     \<lparr>searchQuery = [], searchResults = [], isSearching = False, showResults = False,
      searchHistory = [], popularSearches = [],
      filters_of = \<lparr>f_type = AllTypes, f_category = ''all'', f_sortBy = ByRelevance\<rparr>,
      debounceTimer = None, flights = []\<rparr>"

text \<open>What a handler does to the world outside the component, in the order it does it.\<close>

datatype effect =
  Fetch collection
| LocalStorageSetHistory "string list"
| Increment string
| ConsoleError string

text \<open>
  What the component is given: the language, \<^verbatim>\<open>String.prototype.localeCompare\<close> (the
  collation of the browser), the date stamp of \<^verbatim>\<open>new Date().toISOString().split('T')[0]\<close>,
  and \<open>ref_accepts\<close>, the path check of the database library: \<^verbatim>\<open>database.ref(path)\<close>
  throws on a path that the library refuses. The library is not among the source files. The
  paths of the three collections and of the day counter are fixed texts and a date; the path
  of the popularity counter holds the query.
\<close>

record search_env =
  env_lang :: lang
  localeCompare :: "string \<Rightarrow> string \<Rightarrow> int"
  today :: string
  ref_accepts :: "string \<Rightarrow> bool"

text \<open>
  The store at one moment: for each collection what \<^verbatim>\<open>database.ref(name).once('value')\<close>
  settles to, the children in order with their keys, or \<open>None\<close> when the promise rejects.
\<close>

record database =
  db_projects :: "(string \<times> project) list option"
  db_services :: "(string \<times> service) list option"
  db_posts :: "(string \<times> communityPost) list option"

definition rejects :: "database \<Rightarrow> collection \<Rightarrow> bool" where
  "rejects db c =
     (case c of
        Projects \<Rightarrow> db_projects db = None
      | Services \<Rightarrow> db_services db = None
      | CommunityPosts \<Rightarrow> db_posts db = None)"

definition project_fields :: "lang \<Rightarrow> project \<Rightarrow> string list" where
  "project_fields l p = [localize (p_title p) l, localize (p_description p) l, localize (p_category p) l]"

definition service_fields :: "lang \<Rightarrow> service \<Rightarrow> string list" where
  "service_fields l sv = [localize (s_title sv) l, localize (s_desc sv) l]"

definition post_fields :: "communityPost \<Rightarrow> string list" where
  "post_fields po = [post_title po, post_description po]"

text \<open>The three \<^verbatim>\<open>snapshot.forEach\<close> callbacks, each pushing onto \<^verbatim>\<open>results\<close>.\<close>

definition push_project :: "string \<Rightarrow> lang \<Rightarrow> string \<times> project \<Rightarrow> searchResult list \<Rightarrow> searchResult list" where
  "push_project query l child results =
     (case child of (key, p) \<Rightarrow>
        let relevance = calculateRelevance query (project_fields l p)
        in if relevance > 0
           then results @ [\<lparr>r_id = key, r_title = localize (p_title p) l,
                            r_description = localize (p_description p) l,
                            r_type = ProjectResult,
                            r_category = Some (localize (p_category p) l),
                            r_image = Some (p_image p), relevanceScore = relevance\<rparr>]
           else results)"

definition push_service :: "string \<Rightarrow> lang \<Rightarrow> string \<times> service \<Rightarrow> searchResult list \<Rightarrow> searchResult list" where
  "push_service query l child results =
     (case child of (key, sv) \<Rightarrow>
        let relevance = calculateRelevance query (service_fields l sv)
        in if relevance > 0
           then results @ [\<lparr>r_id = key, r_title = localize (s_title sv) l,
                            r_description = localize (s_desc sv) l,
                            r_type = ServiceResult, r_category = None, r_image = None,
                            relevanceScore = relevance\<rparr>]
           else results)"

definition push_post :: "string \<Rightarrow> string \<times> communityPost \<Rightarrow> searchResult list \<Rightarrow> searchResult list" where
  "push_post query child results =
     (case child of (key, po) \<Rightarrow>
        if isApproved po
        then let relevance = calculateRelevance query (post_fields po)
             in if relevance > 0
                then results @ [\<lparr>r_id = key, r_title = post_title po,
                                 r_description = post_description po,
                                 r_type = PostResult, r_category = None, r_image = None,
                                 relevanceScore = relevance\<rparr>]
                else results
        else results)"

text \<open>
  \<^verbatim>\<open>Array.prototype.sort(compare)\<close> is stable; for a comparator that is a total preorder
  every stable sort gives the list that insertion from the right gives.
\<close>

fun insert_by :: "('a \<Rightarrow> 'a \<Rightarrow> int) \<Rightarrow> 'a \<Rightarrow> 'a list \<Rightarrow> 'a list" where
  "insert_by compare x [] = [x]"
| "insert_by compare x (y # ys) =
     (if compare x y \<le> 0 then x # y # ys else y # insert_by compare x ys)"

definition sort_by :: "('a \<Rightarrow> 'a \<Rightarrow> int) \<Rightarrow> 'a list \<Rightarrow> 'a list" where
  "sort_by compare xs = foldr (insert_by compare) xs []"

definition sort_results :: "search_env \<Rightarrow> sort_mode \<Rightarrow> searchResult list \<Rightarrow> searchResult list" where
  "sort_results env mode results =
     (case mode of
        ByRelevance \<Rightarrow> sort_by (\<lambda>a b. int (relevanceScore b) - int (relevanceScore a)) results
      | ByTitle \<Rightarrow> sort_by (\<lambda>a b. localeCompare env (r_title a) (r_title b)) results)"

text \<open>
  The collections that \<^verbatim>\<open>performSearch\<close> reads, in the order of its three \<^verbatim>\<open>if\<close>
  tests on \<^verbatim>\<open>filters.type\<close>.
\<close>

definition asked :: "filters \<Rightarrow> collection list" where
  "asked f =
     (if f_type f = AllTypes \<or> f_type f = ProjectType then [Projects] else [])
     @ (if f_type f = AllTypes \<or> f_type f = ServiceType then [Services] else [])
     @ (if f_type f = AllTypes \<or> f_type f = PostType then [CommunityPosts] else [])"

text \<open>
  What follows the \<^verbatim>\<open>await\<close> of a collection: the \<^verbatim>\<open>forEach\<close> over its snapshot, or
  \<open>None\<close> when the awaited promise rejects and control goes to the \<^verbatim>\<open>catch\<close> block.
\<close>

definition stage_hits ::
  "search_env \<Rightarrow> closure \<Rightarrow> database \<Rightarrow> collection \<Rightarrow> searchResult list \<Rightarrow> searchResult list option" where
  "stage_hits env cl db c results =
     (case c of
        Projects \<Rightarrow>
          map_option (\<lambda>snapshot. fold (push_project (cl_query cl) (env_lang env)) snapshot results)
            (db_projects db)
      | Services \<Rightarrow>
          map_option (\<lambda>snapshot. fold (push_service (cl_query cl) (env_lang env)) snapshot results)
            (db_services db)
      | CommunityPosts \<Rightarrow>
          map_option (\<lambda>snapshot. fold (push_post (cl_query cl)) snapshot results)
            (db_posts db))"

text \<open>
  \<^verbatim>\<open>saveSearchToHistory(query)\<close>: the new history is the query followed by the entries
  of the closure's history other than the query, cut to ten; it is stored in the state and
  in local storage, and the day counter is incremented. Then
  \<^verbatim>\<open>database.ref\<close> is called on the path that ends in the query: when the library
  refuses the path it throws, which is the result \<open>False\<close>, and otherwise the popularity
  counter is incremented.
\<close>

definition saveSearchToHistory ::
  "search_env \<Rightarrow> closure \<Rightarrow> string \<Rightarrow> search_state \<Rightarrow> search_state \<times> effect list \<times> bool" where
  "saveSearchToHistory env cl query s =
     (let newHistory = take 10 (query # filter (\<lambda>h. h \<noteq> query) (cl_history cl));
          s1 = s\<lparr>searchHistory := newHistory\<rparr>;
          fx = [LocalStorageSetHistory newHistory,
                Increment (''analytics/searches/'' @ today env)]
      in if ref_accepts env (''analytics/popularSearches/'' @ query)
         then (s1, fx @ [Increment (''analytics/popularSearches/'' @ query)], True)
         else (s1, fx, False))"

text \<open>
  The end of the \<^verbatim>\<open>try\<close> block of \<^verbatim>\<open>performSearch\<close>: the sort, the results, the
  history; the \<^verbatim>\<open>catch\<close> block when \<^verbatim>\<open>saveSearchToHistory\<close> has thrown; and
  \<^verbatim>\<open>finally\<close>.
\<close>

definition finish_search ::
  "search_env \<Rightarrow> closure \<Rightarrow> searchResult list \<Rightarrow> search_state \<Rightarrow> search_state \<times> effect list" where
  "finish_search env cl results s =
     (let sortedResults = sort_results env (f_sortBy (cl_filters cl)) results;
          s1 = s\<lparr>searchResults := sortedResults\<rparr>
      in (case saveSearchToHistory env cl (cl_query cl) s1 of
            (s2, fx, saved) \<Rightarrow>
              (s2\<lparr>isSearching := False\<rparr>,
               if saved then fx else fx @ [ConsoleError ''Error performing search:''])))"

text \<open>
  \<^verbatim>\<open>performSearch\<close> from its call to its first \<^verbatim>\<open>await\<close>: the guard on the trimmed
  query, the two state updates before the \<^verbatim>\<open>try\<close>, and the fetch of the first
  collection asked for, at which the call is suspended.
\<close>

definition performSearch_begin ::
  "search_env \<Rightarrow> closure \<Rightarrow> search_state \<Rightarrow> search_state \<times> effect list" where
  "performSearch_begin env cl s =
     (if trim (cl_query cl) = [] then (s, [])
      else
        let s1 = s\<lparr>isSearching := True, showResults := True\<rparr>
        in (case asked (cl_filters cl) of
              [] \<Rightarrow> finish_search env cl [] s1
            | c # rest \<Rightarrow>
                (s1\<lparr>flights := flights s1 @
                      [\<lparr>fl_closure = cl, fl_results = [], fl_todo = c # rest\<rparr>]\<rparr>,
                 [Fetch c])))"

definition remove_nth :: "nat \<Rightarrow> 'a list \<Rightarrow> 'a list" where
  "remove_nth k xs = take k xs @ drop (Suc k) xs"

text \<open>
  \<^verbatim>\<open>performSearch\<close> from the settling of the fetch it awaits to its next
  \<^verbatim>\<open>await\<close> or to its end, for the search at place \<open>k\<close> in \<open>flights\<close>, with the store as
  it is when the fetch settles. A rejected fetch goes to the \<^verbatim>\<open>catch\<close> block, which only
  logs, and \<^verbatim>\<open>finally\<close> clears \<^verbatim>\<open>isSearching\<close>; the later collections are not read.
\<close>

definition performSearch_resume ::
  "search_env \<Rightarrow> database \<Rightarrow> nat \<Rightarrow> search_state \<Rightarrow> search_state \<times> effect list" where
  "performSearch_resume env db k s =
     (if k < length (flights s)
      then
        let fl = flights s ! k; cl = fl_closure fl
        in (case fl_todo fl of
              [] \<Rightarrow> (s\<lparr>flights := remove_nth k (flights s)\<rparr>, [])
            | c # rest \<Rightarrow>
                (case stage_hits env cl db c (fl_results fl) of
                   None \<Rightarrow>
                     (s\<lparr>flights := remove_nth k (flights s), isSearching := False\<rparr>,
                      [ConsoleError ''Error performing search:''])
                 | Some results \<Rightarrow>
                     (case rest of
                        [] \<Rightarrow> finish_search env cl results (s\<lparr>flights := remove_nth k (flights s)\<rparr>)
                      | c' # _ \<Rightarrow>
                          (s\<lparr>flights := (flights s)
                                [k := fl\<lparr>fl_results := results, fl_todo := rest\<rparr>]\<rparr>,
                           [Fetch c']))))
      else (s, []))"

text \<open>
  The effect on \<^verbatim>\<open>[searchQuery, filters]\<close>. React runs the clean-up of the previous run
  first, which clears its timeout; then a query of trimmed length above 2 sets a new timeout
  of 300 ms for the \<^verbatim>\<open>performSearch\<close> of this render, and any other query empties the
  results and hides the panel. A search that has started is not touched.
\<close>

definition searchEffect :: "search_state \<Rightarrow> search_state" where
  "searchEffect s =
     (let s0 = s\<lparr>debounceTimer := None\<rparr>
      in if length (trim (searchQuery s0)) > 2
         then s0\<lparr>debounceTimer :=
                   Some \<lparr>cl_query = searchQuery s0, cl_filters = filters_of s0,
                         cl_history = searchHistory s0\<rparr>\<rparr>
         else s0\<lparr>searchResults := [], showResults := False\<rparr>)"

text \<open>
  The events of the component: the input or a history button sets the query, a select sets
  the filters, a click on a result hides the panel and empties the query, the input takes
  the focus, the pending timeout fires and calls its \<^verbatim>\<open>performSearch\<close>, the fetch awaited
  by the search at place \<open>k\<close> settles with the store as it then is. The effect runs when
  one of its dependencies has changed: a query set to the text it already is changes
  nothing, while a select always stores a new \<^verbatim>\<open>filters\<close> object. Between two events the
  handlers run without interruption.
\<close>

datatype search_event =
  SetSearchQuery string
| SetFilters filters
| ResultClicked
| InputFocused
| DebounceTimerFires
| FetchSettles nat database

definition search_step :: "search_env \<Rightarrow> search_event \<Rightarrow> search_state \<Rightarrow> search_state \<times> effect list" where
  "search_step env ev s =
     (case ev of
        SetSearchQuery q \<Rightarrow>
          (if q = searchQuery s then s else searchEffect (s\<lparr>searchQuery := q\<rparr>), [])
      | SetFilters f \<Rightarrow> (searchEffect (s\<lparr>filters_of := f\<rparr>), [])
      | ResultClicked \<Rightarrow>
          (if searchQuery s = [] then s\<lparr>showResults := False\<rparr>
           else searchEffect (s\<lparr>showResults := False, searchQuery := []\<rparr>), [])
      | InputFocused \<Rightarrow> (s\<lparr>showResults := (length (searchQuery s) > 2)\<rparr>, [])
      | DebounceTimerFires \<Rightarrow>
          (case debounceTimer s of
             None \<Rightarrow> (s, [])
           | Some cl \<Rightarrow> performSearch_begin env cl (s\<lparr>debounceTimer := None\<rparr>))
      | FetchSettles k db \<Rightarrow> performSearch_resume env db k s)"

fun search_run :: "search_env \<Rightarrow> search_event list \<Rightarrow> search_state \<Rightarrow> search_state \<times> effect list" where
  "search_run env [] s = (s, [])"
| "search_run env (ev # evs) s =
     (case search_step env ev s of
        (s', fx) \<Rightarrow> (case search_run env evs s' of (s'', fx') \<Rightarrow> (s'', fx @ fx')))"

section \<open>JSON values\<close>

text \<open>
  What \<^verbatim>\<open>JSON.parse\<close> returns. Numbers are the integers, the only numbers that the
  response schemas of this program ask for; an object is the list of its members in the
  order of the text, and a key that occurs twice reads as its last value.
\<close>

datatype json =
  JNull
| JBool bool
| JNumber int
| JString string
| JArray "json list"
| JObject "(string \<times> json) list"

text \<open>
  \<^verbatim>\<open>v?.key\<close> and \<^verbatim>\<open>v.key\<close> for the keys read in this program, none of which is a
  property of an array, a string, a number or a boolean: \<open>None\<close> is \<^verbatim>\<open>undefined\<close>.
\<close>

definition get_prop :: "json \<Rightarrow> string \<Rightarrow> json option" where
  "get_prop v key = (case v of JObject members \<Rightarrow> map_of (rev members) key | _ \<Rightarrow> None)"

text \<open>The truth value of a value in a condition, and of a property that may be undefined.\<close>

definition truthy :: "json \<Rightarrow> bool" where
  "truthy v =
     (case v of
        JNull \<Rightarrow> False
      | JBool b \<Rightarrow> b
      | JNumber n \<Rightarrow> n \<noteq> 0
      | JString t \<Rightarrow> t \<noteq> []
      | JArray _ \<Rightarrow> True
      | JObject _ \<Rightarrow> True)"

definition truthy_prop :: "json option \<Rightarrow> bool" where
  "truthy_prop x = (case x of None \<Rightarrow> False | Some v \<Rightarrow> truthy v)"

section \<open>The AI service module\<close>

datatype role = User | Model

record chatHistoryItem =
  role_of :: role
  parts :: "string list"

text \<open>
  The request handed to \<^verbatim>\<open>ai.models.generateContent\<close>. The model is always
  \<^verbatim>\<open>gemini-2.5-flash\<close>; the system instruction and the response schema are fixed texts of
  the module and are kept by name.
\<close>

datatype system_instruction =
  ServicePersona lang
| QualificationInstruction
| ConsultationInstruction
| BrainstormInstruction lang string

datatype response_schema = LeadQualificationSchema | ConsultationSchema

record gen_request =
  contents :: "chatHistoryItem list"
  systemInstruction :: system_instruction
  responseSchema :: "response_schema option"

text \<open>The promise of \<^verbatim>\<open>generateContent\<close> rejects, or resolves to a response with this text.\<close>

datatype gen_outcome = Rejected | Responded string

type_synonym ai_client = "gen_request \<Rightarrow> gen_outcome"

text \<open>The payload posted to the webhook for a hot lead.\<close>

record hotLeadData =
  leadType :: string
  hl_purchaseIntentScore :: "json option"
  hl_businessSummary :: "json option"
  leadName :: json
  leadEmail :: json
  leadPhone :: json
  timestamp :: string

text \<open>The calls a handler makes to the outside, in order.\<close>

datatype call =
  GenerateContent gen_request
| AnalyzeChat "chatHistoryItem list"
| FetchWebhook hotLeadData
| LogError string

text \<open>
  What the chat is given. \<open>ai\<close> is the module's client, \<open>None\<close> when no API key is set.
  \<open>JSON_parse\<close> and \<open>JSON_stringify\<close> are the functions of the platform, \<open>None\<close> where
  \<^verbatim>\<open>JSON.parse\<close> throws. \<open>message_table\<close> is the table \<^verbatim>\<open>translations\<close> of the
  constants module, which is not among the source files, read at a language and a key.
  \<open>webhook\<close> says whether the \<^verbatim>\<open>fetch\<close> of the webhook resolves; \<open>now\<close> is
  \<^verbatim>\<open>new Date().toISOString()\<close>.
\<close>

record chat_env =
  ai :: "ai_client option"
  JSON_parse :: "string \<Rightarrow> json option"
  JSON_stringify :: "json \<Rightarrow> string"
  message_table :: "lang \<Rightarrow> string \<Rightarrow> string"
  webhook :: "hotLeadData \<Rightarrow> bool"
  now :: string



definition qualification_request :: "chatHistoryItem list \<Rightarrow> gen_request" where
  "qualification_request history =
     \<lparr>contents = history @
        [\<lparr>role_of = User,
          parts = [''Analyze the previous conversation according to your instructions.'']\<rparr>],
      systemInstruction = QualificationInstruction,
      responseSchema = Some LeadQualificationSchema\<rparr>"

text \<open>
  \<^verbatim>\<open>analyzeChatForLeadQualification\<close> returns \<^verbatim>\<open>null\<close> without a client or a history,
  and from its \<^verbatim>\<open>catch\<close> block; otherwise it returns what the text of the response parses
  to, as it is.
\<close>

definition analyzeChatForLeadQualification ::
  "chat_env \<Rightarrow> chatHistoryItem list \<Rightarrow> json \<times> call list" where
  "analyzeChatForLeadQualification env history =
     (case ai env of
        None \<Rightarrow> (JNull, [])
      | Some client \<Rightarrow>
          if history = [] then (JNull, [])
          else
            let request = qualification_request history
            in (case client request of
                  Rejected \<Rightarrow>
                    (JNull, [GenerateContent request, LogError ''Gemini Qualification Error:''])
                | Responded t \<Rightarrow>
                    (case JSON_parse env (trim t) of
                       None \<Rightarrow>
                         (JNull, [GenerateContent request, LogError ''Gemini Qualification Error:''])
                     | Some v \<Rightarrow> (v, [GenerateContent request]))))"

definition consultation_request :: "string \<Rightarrow> gen_request" where
  "consultation_request problemDescription =
     \<lparr>contents = [\<lparr>role_of = User, parts = [problemDescription]\<rparr>],
      systemInstruction = ConsultationInstruction,
      responseSchema = Some ConsultationSchema\<rparr>"

definition getAiConsultation :: "chat_env \<Rightarrow> string \<Rightarrow> json \<times> call list" where
  "getAiConsultation env problemDescription =
     (case ai env of
        None \<Rightarrow> (JNull, [])
      | Some client \<Rightarrow>
          let request = consultation_request problemDescription
          in (case client request of
                Rejected \<Rightarrow>
                  (JNull, [GenerateContent request, LogError ''Gemini Consultation Error:''])
              | Responded t \<Rightarrow>
                  (case JSON_parse env (trim t) of
                     None \<Rightarrow>
                       (JNull, [GenerateContent request, LogError ''Gemini Consultation Error:''])
                   | Some v \<Rightarrow> (v, [GenerateContent request]))))"



section \<open>The chat widget\<close>

datatype chatbotView =
  MainView
| ServicesView
| ServiceDetailView
| BrainstormInputView
| BrainstormResultView
| RequestServiceView
| RequestSuccessView
| ConsultationInputView
| ConsultationResultView

record requestFormData =
  rf_name :: string
  rf_email :: string
  rf_phone :: string
  rf_message :: string
  rf_contactMethod :: "string list"

record chat_state =
  isOpen :: bool
  view :: chatbotView
  serviceDetail :: "(string \<times> string) option"
  brainstormIdea :: string
  brainstormResult :: string
  consultationResult :: "json option"
  consultationProblem :: string
  isLoading :: bool
  showInitialPopup :: bool
  chatHistory :: "chatHistoryItem list"
  requestForm :: requestFormData
  isConvoSaved :: bool

definition empty_form :: requestFormData where
  "empty_form = \<lparr>rf_name = [], rf_email = [], rf_phone = [], rf_message = [], rf_contactMethod = []\<rparr>"

definition initial_chat_state :: chat_state where
  "initial_chat_state =
     \<lparr>isOpen = False, view = MainView, serviceDetail = None, brainstormIdea = [],
      brainstormResult = [], consultationResult = None, consultationProblem = [],
      isLoading = False, showInitialPopup = False, chatHistory = [],
      requestForm = empty_form, isConvoSaved = False\<rparr>"

text \<open>
  \<^verbatim>\<open>setView(v)\<close> together with the effect on \<^verbatim>\<open>[view]\<close>, which clears
  \<^verbatim>\<open>isConvoSaved\<close> when the view has changed.
\<close>

definition setView :: "chatbotView \<Rightarrow> chat_state \<Rightarrow> chat_state" where
  "setView v s = (if view s = v then s else s\<lparr>view := v, isConvoSaved := False\<rparr>)"

definition resetChat :: "chat_state \<Rightarrow> chat_state" where
  "resetChat s =
     (setView MainView s)
       \<lparr>serviceDetail := None, brainstormIdea := [], brainstormResult := [],
        consultationResult := None, consultationProblem := [], chatHistory := [],
        requestForm := empty_form, isConvoSaved := False\<rparr>"

text \<open>\<^verbatim>\<open>x || 'N/A'\<close> for a property that may be undefined.\<close>

definition or_NA :: "json option \<Rightarrow> json" where
  "or_NA x = (case x of None \<Rightarrow> JString ''N/A'' | Some v \<Rightarrow> if truthy v then v else JString ''N/A'')"

text \<open>
  \<^verbatim>\<open>handleCloseChat\<close>: the widget closes; with a transcript the qualification is asked
  for, and a truthy \<^verbatim>\<open>isHotLead\<close> posts the lead to the webhook; whatever is thrown inside
  the \<^verbatim>\<open>try\<close> block is logged; \<^verbatim>\<open>resetChat\<close> follows on every path.
\<close>

definition handleCloseChat :: "chat_env \<Rightarrow> chat_state \<Rightarrow> chat_state \<times> call list" where
  "handleCloseChat env s =
     (let s1 = s\<lparr>isOpen := False\<rparr>
      in if chatHistory s \<noteq> []
         then
           (case analyzeChatForLeadQualification env (chatHistory s) of
              (analysis, calls) \<Rightarrow>
                if truthy_prop (get_prop analysis ''isHotLead'')
                then
                  let hotLead = \<lparr>leadType = ''Hot Lead - Auto Detected'',
                                  hl_purchaseIntentScore = get_prop analysis ''purchaseIntentScore'',
                                  hl_businessSummary = get_prop analysis ''businessSummary'',
                                  leadName = or_NA (get_prop analysis ''leadName''),
                                  leadEmail = or_NA (get_prop analysis ''leadEmail''),
                                  leadPhone = or_NA (get_prop analysis ''leadPhone''),
                                  timestamp = now env\<rparr>
                  in (resetChat s1,
                      AnalyzeChat (chatHistory s) # calls @ [FetchWebhook hotLead] @
                      (if webhook env hotLead then []
                       else [LogError ''Failed to process or send hot lead webhook:'']))
                else (resetChat s1, AnalyzeChat (chatHistory s) # calls))
         else (resetChat s1, []))"

text \<open>The round button: \<^verbatim>\<open>isOpen ? handleCloseChat() : setIsOpen(true)\<close>.\<close>

definition toggleChat :: "chat_env \<Rightarrow> chat_state \<Rightarrow> chat_state \<times> call list" where
  "toggleChat env s = (if isOpen s then handleCloseChat env s else (s\<lparr>isOpen := True\<rparr>, []))"






text \<open>
  \<^verbatim>\<open>handleConsultationSubmit\<close>: the view goes to the result at once, with the loading
  flag set and no result, which is the state \<open>consultation_pending\<close> while the call is
  awaited; a truthy answer is stored and logged in the transcript, any other answer sends
  the view back to the input.
\<close>

definition consultation_pending :: "chat_state \<Rightarrow> chat_state" where
  "consultation_pending s =
     (setView ConsultationResultView (s\<lparr>isLoading := True\<rparr>))
       \<lparr>consultationResult := None,
        chatHistory := chatHistory s @
          [\<lparr>role_of = User, parts = [''Business Problem: '' @ consultationProblem s]\<rparr>]\<rparr>"

definition handleConsultationSubmit :: "chat_env \<Rightarrow> chat_state \<Rightarrow> chat_state \<times> call list" where
  "handleConsultationSubmit env s =
     (let s1 = consultation_pending s
      in (case getAiConsultation env (consultationProblem s) of
            (result, calls) \<Rightarrow>
              if truthy result
              then (s1\<lparr>consultationResult := Some result,
                       chatHistory := chatHistory s1 @
                         [\<lparr>role_of = Model,
                           parts = [''Generated Proposal: '' @ JSON_stringify env result]\<rparr>],
                       isLoading := False\<rparr>,
                    calls)
              else ((setView ConsultationInputView s1)\<lparr>isLoading := False\<rparr>, calls)))"

text \<open>
  What \<^verbatim>\<open>renderContent\<close> shows for a state, by view: the menus, the forms with their
  text, a card with its text or the loading spinner, the proposal.
\<close>

datatype card_body = Spinner | Body string

datatype rendered =
  MainMenu
| ServicesMenu
| ServiceDetailCard "string option" card_body
| BrainstormForm string
| BrainstormCard card_body
| RequestForm requestFormData
| RequestSuccessCard
| ConsultationForm string
| LoadingSpinner
| ErrorGeneratingProposal
| ProposalCard json

definition renderContent :: "chat_state \<Rightarrow> rendered" where
  "renderContent s =
     (case view s of
        MainView \<Rightarrow> MainMenu
      | ServicesView \<Rightarrow> ServicesMenu
      | ServiceDetailView \<Rightarrow>
          ServiceDetailCard (map_option fst (serviceDetail s))
            (if isLoading s then Spinner
             else Body (case serviceDetail s of None \<Rightarrow> [] | Some (_, content) \<Rightarrow> content))
      | BrainstormInputView \<Rightarrow> BrainstormForm (brainstormIdea s)
      | BrainstormResultView \<Rightarrow>
          BrainstormCard (if isLoading s then Spinner else Body (brainstormResult s))
      | RequestServiceView \<Rightarrow> RequestForm (requestForm s)
      | RequestSuccessView \<Rightarrow> RequestSuccessCard
      | ConsultationInputView \<Rightarrow> ConsultationForm (consultationProblem s)
      | ConsultationResultView \<Rightarrow>
          (if isLoading s then LoadingSpinner
           else (case consultationResult s of
                   None \<Rightarrow> ErrorGeneratingProposal
                 | Some proposal \<Rightarrow> ProposalCard proposal)))"

section \<open>A reader and a writer for JSON texts\<close>

text \<open>
  The theorems below hold for every \<open>JSON_parse\<close> and \<open>JSON_stringify\<close>. To run the
  handlers on a concrete answer of the AI, \<^verbatim>\<open>JSON.parse\<close> and \<^verbatim>\<open>JSON.stringify\<close> are
  written out here for the texts made of objects, arrays, strings with the one-letter
  escapes, integers, \<^verbatim>\<open>true\<close>, \<^verbatim>\<open>false\<close> and \<^verbatim>\<open>null\<close>. Fractions, exponents and
  \<^verbatim>\<open>\u\<close> escapes are not read. The first argument of the reader bounds the depth of its
  recursion; \<open>json_parse\<close> starts it with one more than the length of the text.
\<close>

definition is_json_space :: "char \<Rightarrow> bool" where
  "is_json_space c = (c = CHR '' '' \<or> c = CHR 0x09 \<or> c = CHR 0x0A \<or> c = CHR 0x0D)"

definition skip_space :: "string \<Rightarrow> string" where
  "skip_space s = dropWhile is_json_space s"

definition is_digit :: "char \<Rightarrow> bool" where
  "is_digit c = (48 \<le> (of_char c :: nat) \<and> (of_char c :: nat) \<le> 57)"

definition digits_value :: "string \<Rightarrow> nat" where
  "digits_value ds = foldl (\<lambda>acc d. acc * 10 + (of_char d - 48)) 0 ds"

definition unescape :: "char \<Rightarrow> char option" where
  "unescape e =
     (if e = CHR 0x22 \<or> e = CHR 0x5C \<or> e = CHR ''/'' then Some e
      else if e = CHR ''b'' then Some (CHR 0x08)
      else if e = CHR ''f'' then Some (CHR 0x0C)
      else if e = CHR ''n'' then Some (CHR 0x0A)
      else if e = CHR ''r'' then Some (CHR 0x0D)
      else if e = CHR ''t'' then Some (CHR 0x09)
      else None)"

text \<open>The characters of a string after its opening quote, and the rest of the text.\<close>

fun read_chars :: "string \<Rightarrow> (string \<times> string) option" where
  "read_chars [] = None"
| "read_chars (c # cs) =
     (if c = CHR 0x22 then Some ([], cs)
      else if c = CHR 0x5C then
        (case cs of
           [] \<Rightarrow> None
         | e # rest \<Rightarrow>
             (case unescape e of
                None \<Rightarrow> None
              | Some u \<Rightarrow> map_option (\<lambda>(t, r). (u # t, r)) (read_chars rest)))
      else if (of_char c :: nat) < 32 then None
      else map_option (\<lambda>(t, r). (c # t, r)) (read_chars cs))"

definition read_digits :: "string \<Rightarrow> (nat \<times> string) option" where
  "read_digits s =
     (let ds = takeWhile is_digit s; rest = dropWhile is_digit s
      in if ds = [] \<or> (hd ds = CHR ''0'' \<and> length ds > 1) then None
         else (case rest of
                 [] \<Rightarrow> Some (digits_value ds, rest)
               | c # _ \<Rightarrow>
                   if c = CHR ''.'' \<or> c = CHR ''e'' \<or> c = CHR ''E'' then None
                   else Some (digits_value ds, rest)))"

text \<open>A key that is already a member keeps its place and takes the new value.\<close>

fun set_member :: "string \<Rightarrow> json \<Rightarrow> (string \<times> json) list \<Rightarrow> (string \<times> json) list" where
  "set_member k v [] = [(k, v)]"
| "set_member k v ((k', v') # ms) =
     (if k' = k then (k, v) # ms else (k', v') # set_member k v ms)"

fun read_value :: "nat \<Rightarrow> string \<Rightarrow> (json \<times> string) option"
  and read_elements :: "nat \<Rightarrow> json list \<Rightarrow> string \<Rightarrow> (json \<times> string) option"
  and read_members :: "nat \<Rightarrow> (string \<times> json) list \<Rightarrow> string \<Rightarrow> (json \<times> string) option"
where
  "read_value 0 s = None"
| "read_value (Suc n) s =
     (case skip_space s of
        [] \<Rightarrow> None
      | c # cs \<Rightarrow>
          if c = CHR ''{'' then
            (case skip_space cs of
               [] \<Rightarrow> None
             | d # ds \<Rightarrow> if d = CHR ''}'' then Some (JObject [], ds) else read_members n [] cs)
          else if c = CHR ''['' then
            (case skip_space cs of
               [] \<Rightarrow> None
             | d # ds \<Rightarrow> if d = CHR '']'' then Some (JArray [], ds) else read_elements n [] cs)
          else if c = CHR 0x22 then map_option (\<lambda>(t, r). (JString t, r)) (read_chars cs)
          else if prefix ''true'' (c # cs) then Some (JBool True, drop 4 (c # cs))
          else if prefix ''false'' (c # cs) then Some (JBool False, drop 5 (c # cs))
          else if prefix ''null'' (c # cs) then Some (JNull, drop 4 (c # cs))
          else if c = CHR ''-'' then map_option (\<lambda>(k, r). (JNumber (- int k), r)) (read_digits cs)
          else map_option (\<lambda>(k, r). (JNumber (int k), r)) (read_digits (c # cs)))"
| "read_elements 0 acc s = None"
| "read_elements (Suc n) acc s =
     (case read_value n s of
        None \<Rightarrow> None
      | Some (v, r) \<Rightarrow>
          (case skip_space r of
             [] \<Rightarrow> None
           | c # cs \<Rightarrow>
               if c = CHR '','' then read_elements n (acc @ [v]) cs
               else if c = CHR '']'' then Some (JArray (acc @ [v]), cs)
               else None))"
| "read_members 0 acc s = None"
| "read_members (Suc n) acc s =
     (case skip_space s of
        [] \<Rightarrow> None
      | q # cs \<Rightarrow>
          if q = CHR 0x22 then
            (case read_chars cs of
               None \<Rightarrow> None
             | Some (k, r1) \<Rightarrow>
                 (case skip_space r1 of
                    [] \<Rightarrow> None
                  | colon # r2 \<Rightarrow>
                      if colon = CHR '':'' then
                        (case read_value n r2 of
                           None \<Rightarrow> None
                         | Some (v, r3) \<Rightarrow>
                             (case skip_space r3 of
                                [] \<Rightarrow> None
                              | c # r4 \<Rightarrow>
                                  if c = CHR '','' then read_members n (set_member k v acc) r4
                                  else if c = CHR ''}'' then Some (JObject (set_member k v acc), r4)
                                  else None))
                      else None))
          else None)"

definition json_parse :: "string \<Rightarrow> json option" where
  "json_parse s =
     (case read_value (Suc (length s)) s of
        None \<Rightarrow> None
      | Some (v, r) \<Rightarrow> if skip_space r = [] then Some v else None)"

fun decimal :: "nat \<Rightarrow> nat \<Rightarrow> string" where
  "decimal 0 k = ''0''"
| "decimal (Suc fuel) k =
     (if k < 10 then [char_of (48 + k)]
      else decimal fuel (k div 10) @ [char_of (48 + k mod 10)])"

definition escape :: "char \<Rightarrow> string" where
  "escape c =
     (if c = CHR 0x22 then [CHR 0x5C, CHR 0x22]
      else if c = CHR 0x5C then [CHR 0x5C, CHR 0x5C]
      else if c = CHR 0x08 then [CHR 0x5C, CHR ''b'']
      else if c = CHR 0x0C then [CHR 0x5C, CHR ''f'']
      else if c = CHR 0x0A then [CHR 0x5C, CHR ''n'']
      else if c = CHR 0x0D then [CHR 0x5C, CHR ''r'']
      else if c = CHR 0x09 then [CHR 0x5C, CHR ''t'']
      else [c])"

definition quoted :: "string \<Rightarrow> string" where
  "quoted t = CHR 0x22 # concat (map escape t) @ [CHR 0x22]"

fun join_comma :: "string list \<Rightarrow> string" where
  "join_comma [] = []"
| "join_comma [x] = x"
| "join_comma (x # y # ys) = x @ '','' @ join_comma (y # ys)"

fun json_stringify :: "json \<Rightarrow> string" where
  "json_stringify JNull = ''null''"
| "json_stringify (JBool b) = (if b then ''true'' else ''false'')"
| "json_stringify (JNumber k) =
     (if k < 0 then ''-'' @ decimal (nat (- k)) (nat (- k)) else decimal (nat k) (nat k))"
| "json_stringify (JString t) = quoted t"
| "json_stringify (JArray vs) = ''['' @ join_comma (map json_stringify vs) @ '']''"
| "json_stringify (JObject ms) =
     ''{'' @ join_comma (map (\<lambda>(k, v). quoted k @ '':'' @ json_stringify v) ms) @ ''}''"

section \<open>Derived notions and sample inputs\<close>

text \<open>What the field at index \<open>i\<close> of \<open>n\<close> adds to the score.\<close>

definition field_score :: "nat \<Rightarrow> nat \<Rightarrow> string \<Rightarrow> string \<Rightarrow> nat" where
  "field_score n i q f = (if f = [] then 0 else spec_field_score split_space n i q f)"

text \<open>A list up to and including its first element with the property.\<close>

fun through_first :: "('a \<Rightarrow> bool) \<Rightarrow> 'a list \<Rightarrow> 'a list" where
  "through_first P [] = []"
| "through_first P (x # xs) = (if P x then [x] else x # through_first P xs)"

text \<open>
  The result list in the words of the specification's failure rule: a collection whose
  fetch rejects adds nothing, the others that are asked for add their hits, and the list is
  sorted.
\<close>

definition spec_partial_results :: "search_env \<Rightarrow> closure \<Rightarrow> database \<Rightarrow> searchResult list" where
  "spec_partial_results env cl db =
     sort_results env (f_sortBy (cl_filters cl))
       (fold (\<lambda>c results. case stage_hits env cl db c results of None \<Rightarrow> results | Some r \<Rightarrow> r)
             (asked (cl_filters cl)) [])"

text \<open>
  A search that nothing interrupts: the query is set, the time of the debounce passes, and
  the fetches of the search settle, each with the store \<open>db\<close>, before anything else
  happens. A search reads at most three collections; a settling with no search under way
  does nothing.
\<close>

definition uninterrupted_search :: "database \<Rightarrow> string \<Rightarrow> search_event list" where
  "uninterrupted_search db q =
     [SetSearchQuery q, DebounceTimerFires, FetchSettles 0 db, FetchSettles 0 db, FetchSettles 0 db]"

text \<open>
  A history of at most ten entries, none twice; and a state in which the history, the
  history captured by the pending timeout and the histories captured by the searches under
  way are all such.
\<close>

definition history_ok :: "string list \<Rightarrow> bool" where
  "history_ok h = (length h \<le> 10 \<and> distinct h)"

definition histories_ok :: "search_state \<Rightarrow> bool" where
  "histories_ok s =
     (history_ok (searchHistory s)
      \<and> (case debounceTimer s of None \<Rightarrow> True | Some cl \<Rightarrow> history_ok (cl_history cl))
      \<and> list_all (\<lambda>fl. history_ok (cl_history (fl_closure fl))) (flights s))"


text \<open>The transcripts handed to the qualification, and the requests sent to the AI, in a log.\<close>

definition analyze_calls :: "call list \<Rightarrow> chatHistoryItem list list" where
  "analyze_calls calls = concat (map (\<lambda>c. case c of AnalyzeChat h \<Rightarrow> [h] | _ \<Rightarrow> []) calls)"

definition generate_calls :: "call list \<Rightarrow> gen_request list" where
  "generate_calls calls = concat (map (\<lambda>c. case c of GenerateContent r \<Rightarrow> [r] | _ \<Rightarrow> []) calls)"

text \<open>
  A path check for the samples: the database library refuses a path that holds one of the
  characters \<^verbatim>\<open>. # $ [ ]\<close>.
\<close>

definition lib_accepts :: "string \<Rightarrow> bool" where
  "lib_accepts path = list_all (\<lambda>c. c \<notin> set ''.#$[]'') path"

definition sample_search_env :: search_env where
  "sample_search_env =
     \<lparr>env_lang = En, localeCompare = (\<lambda>a b. 0), today = ''2026-01-01'',
      ref_accepts = lib_accepts\<rparr>"

text \<open>A project whose title alone has to do with the query \<^verbatim>\<open>auto\<close>.\<close>

definition automation_suite :: project where
  "automation_suite =
     \<lparr>p_title = Some \<lparr>en = ''Automation Suite'', ar = []\<rparr>,
      p_description = Some \<lparr>en = ''Runs your back office'', ar = []\<rparr>,
      p_category = Some \<lparr>en = ''Workflows'', ar = []\<rparr>,
      p_image = []\<rparr>"

definition db_all_up :: database where
  "db_all_up =
     \<lparr>db_projects = Some [(''p1'', automation_suite)], db_services = Some [], db_posts = Some []\<rparr>"

definition db_services_down :: database where
  "db_services_down = db_all_up\<lparr>db_services := None\<rparr>"

text \<open>
  The closure of the render in which the query has become \<^verbatim>\<open>auto\<close> in the initial
  state, that state with its timeout pending, and the state after the search has run to its
  end with every fetch resolving.
\<close>

definition auto_closure :: closure where
  "auto_closure =
     \<lparr>cl_query = ''auto'', cl_filters = filters_of initial_search_state, cl_history = []\<rparr>"

definition auto_pending_state :: search_state where
  "auto_pending_state =
     fst (search_step sample_search_env (SetSearchQuery ''auto'') initial_search_state)"

definition found_state :: search_state where
  "found_state =
     fst (search_run sample_search_env (uninterrupted_search db_all_up ''auto'') initial_search_state)"

definition sample_transcript :: "chatHistoryItem list" where
  "sample_transcript =
     [\<lparr>role_of = User, parts = [''We need our invoicing automated this month.'']\<rparr>]"


definition hot_answer :: string where
  \<open>hot_answer = ''{"purchaseIntentScore":95,"isHotLead":true,"businessSummary":"s"}''\<close>

definition ai_answers :: "string \<Rightarrow> ai_client" where
  "ai_answers t request = Responded t"


definition sample_messages :: "lang \<Rightarrow> string \<Rightarrow> string" where
  "sample_messages l key =
     (if key = ''bot_error_key'' then ''The assistant is switched off.''
      else if key = ''bot_error_api'' then ''Something went wrong, please try again.''
      else key)"

definition webhook_down :: "hotLeadData \<Rightarrow> bool" where
  "webhook_down payload = False"

definition sample_env :: "ai_client option \<Rightarrow> chat_env" where
  "sample_env client =
     \<lparr>ai = client, JSON_parse = json_parse, JSON_stringify = json_stringify,
      message_table = sample_messages, webhook = webhook_down,
      now = ''2026-01-01T00:00:00.000Z''\<rparr>"

definition consulting_state :: chat_state where
  "consulting_state =
     initial_chat_state\<lparr>isOpen := True, view := ConsultationInputView,
                        consultationProblem := ''Our invoices are typed by hand.''\<rparr>"

definition talking_state :: chat_state where
  "talking_state =
     initial_chat_state\<lparr>isOpen := True, view := ServiceDetailView,
                        serviceDetail := Some (''Custom Telegram Bots'', ''A bot answers for you.''),
                        chatHistory := sample_transcript\<rparr>"

section \<open>The score in closed form\<close>

lemma fold_count_matches:
  "fold (\<lambda>x sc. if P x then sc + k else sc) xs s = s + k * length (filter P xs)"
  by (induction xs arbitrary: s) simp_all

lemma word_matches_closed:
  "word_matches w qws fws s = s + w * 2 * pair_matches qws fws"
proof (induction qws arbitrary: s)
  case Nil
  show ?case by (simp add: word_matches_def pair_matches_def)
next
  case (Cons q qs)
  have step: "word_matches w (q # qs) fws s =
        word_matches w qs fws
          (fold (\<lambda>fw sc. if js_includes fw q \<or> js_includes q fw then sc + w * 2 else sc) fws s)"
    by (simp add: word_matches_def)
  have cnt: "pair_matches (q # qs) fws =
        length (filter (\<lambda>fw. js_includes fw q \<or> js_includes q fw) fws) + pair_matches qs fws"
    by (simp add: pair_matches_def filter_map o_def)
  show ?case
    unfolding step Cons.IH fold_count_matches cnt by (simp add: algebra_simps)
qed

lemma field_step_closed:
  "field_step (toLowerCase q) n (i, f) s = s + field_score n i q f"
  by (simp add: field_step_def field_score_def spec_field_score_def Let_def word_matches_closed)

lemma fold_field_step:
  "fold (field_step (toLowerCase q) n) (enumerate k fs) s =
     s + (\<Sum>j<length fs. field_score n (k + j) q (fs ! j))"
proof (induction fs arbitrary: k s)
  case Nil
  show ?case by simp
next
  case (Cons f fs)
  show ?case
    by (simp add: Cons.IH field_step_closed sum.lessThan_Suc_shift del: sum.lessThan_Suc)
qed

lemma calculateRelevance_sum:
  "calculateRelevance q fs = (\<Sum>i<length fs. field_score (length fs) i q (fs ! i))"
  by (simp add: calculateRelevance_def Let_def fold_field_step)

lemma field_score_weight: "field_score n i q f = (n - i) * field_score 1 0 q f"
  by (simp add: field_score_def spec_field_score_def Let_def distrib_left mult.assoc)

lemma calculateRelevance_single: "calculateRelevance q [f] = field_score 1 0 q f"
  by (simp add: calculateRelevance_sum)

lemma calculateRelevance_three:
  "calculateRelevance q [a, b, c] = field_score 3 0 q a + field_score 3 1 q b + field_score 3 2 q c"
  by (simp add: calculateRelevance_sum eval_nat_numeral)

lemma title_score: "field_score 3 0 ''auto'' ''Automation Suite'' = 36"
  by code_simp

lemma sample_relevance: "calculateRelevance ''abc'' [[], ''x  abc''] = 14"
  by code_simp

text \<open>
  Claim C2, as the code has it. The score is the sum over the fields that are not empty:
  the field at index \<open>i\<close> of \<open>n\<close> adds \<open>(n - i) * 10\<close> when its lower-case form contains the
  lower-case query, and \<open>(n - i) * 2\<close> for every pair of a query piece and a field piece of
  which one contains the other, the pieces being those of \<^verbatim>\<open>split(' ')\<close>, empty ones
  included. An empty field adds nothing.
\<close>

theorem calculateRelevance_formula:
  "calculateRelevance query fs =
     (\<Sum>i<length fs.
        if fs ! i = [] then 0
        else (if js_includes (toLowerCase (fs ! i)) (toLowerCase query)
              then (length fs - i) * 10 else 0)
             + (length fs - i) * 2
               * pair_matches (split_space (toLowerCase query))
                              (split_space (toLowerCase (fs ! i))))"
  unfolding calculateRelevance_sum field_score_def spec_field_score_def Let_def ..

theorem calculateRelevance_formula_witness:
  "(\<Sum>i<length [[], ''x  abc''].
        if [[], ''x  abc''] ! i = [] then 0
        else (if js_includes (toLowerCase ([[], ''x  abc''] ! i)) (toLowerCase ''abc'')
              then (length [[], ''x  abc''] - i) * 10 else 0)
             + (length [[], ''x  abc''] - i) * 2
               * pair_matches (split_space (toLowerCase ''abc''))
                              (split_space (toLowerCase ([[], ''x  abc''] ! i)))) = (14::nat)"
  using calculateRelevance_formula [of "''abc''" "[[], ''x  abc'']"] sample_relevance
  by simp

text \<open>
  Claim C2 as stated fails. For the query \<^verbatim>\<open>abc\<close> and the fields \<^verbatim>\<open>''\<close> and
  \<^verbatim>\<open>x  abc\<close> (two spaces) the code gives 14. The stated sum gives 12 when words are the
  non-empty runs between white space, and 18 when words are the pieces of \<^verbatim>\<open>split(' ')\<close>
  with the empty field counted like any other.
\<close>

theorem calculateRelevance_formula_counterexample:
  "calculateRelevance ''abc'' [[], ''x  abc''] = 14
   \<and> spec_relevance white_space_words ''abc'' [[], ''x  abc''] = 12
   \<and> spec_relevance split_space ''abc'' [[], ''x  abc''] = 18"
  by code_simp

text \<open>
  Claim C4, as the code has it. The query \<^verbatim>\<open>auto\<close> against a project whose English title
  is \<^verbatim>\<open>Automation Suite\<close>, and whose description and category do not match the query on
  their own, scores 36: 30 for the title containing the query and 6 for the title word
  \<^verbatim>\<open>automation\<close> containing the query word.
\<close>

theorem auto_title_scores_36:
  assumes "localize (p_title p) En = ''Automation Suite''"
    and "calculateRelevance ''auto'' [localize (p_description p) En] = 0"
    and "calculateRelevance ''auto'' [localize (p_category p) En] = 0"
  shows "calculateRelevance ''auto'' (project_fields En p) = 36"
proof -
  have d: "field_score 3 1 ''auto'' (localize (p_description p) En) = 0"
    by (subst field_score_weight) (use assms(2) in \<open>simp add: calculateRelevance_single\<close>)
  have c: "field_score 3 2 ''auto'' (localize (p_category p) En) = 0"
    by (subst field_score_weight) (use assms(3) in \<open>simp add: calculateRelevance_single\<close>)
  show ?thesis
    unfolding project_fields_def calculateRelevance_three assms(1) title_score d c by simp
qed

theorem auto_title_scores_36_witness:
  "localize (p_title automation_suite) En = ''Automation Suite''
   \<and> calculateRelevance ''auto'' [localize (p_description automation_suite) En] = 0
   \<and> calculateRelevance ''auto'' [localize (p_category automation_suite) En] = 0
   \<and> calculateRelevance ''auto'' (project_fields En automation_suite) = 36"
proof -
  have t: "localize (p_title automation_suite) En = ''Automation Suite''"
    by (simp add: automation_suite_def localize_def)
  have d: "calculateRelevance ''auto'' [localize (p_description automation_suite) En] = 0"
    by code_simp
  have c: "calculateRelevance ''auto'' [localize (p_category automation_suite) En] = 0"
    by code_simp
  from auto_title_scores_36 [OF t d c] t d c show ?thesis by simp
qed

text \<open>Claim C4 as stated fails: the score of that project is 36, not 30.\<close>

theorem auto_title_scores_30_counterexample:
  "calculateRelevance ''auto'' (project_fields En automation_suite) \<noteq> 30"
  by code_simp

section \<open>Blank queries\<close>
















section \<open>A fetch that rejects\<close>

lemma asked_cases:
  "asked f =
     (case f_type f of
        AllTypes \<Rightarrow> [Projects, Services, CommunityPosts]
      | ProjectType \<Rightarrow> [Projects]
      | ServiceType \<Rightarrow> [Services]
      | PostType \<Rightarrow> [CommunityPosts])"
  by (cases "f_type f") (simp_all add: asked_def)

lemma performSearch_resume_rejected:
  assumes "k < length (flights s)" "fl_todo (flights s ! k) = c # rest" "rejects db c"
  shows "performSearch_resume env db k s =
           (s\<lparr>flights := remove_nth k (flights s), isSearching := False\<rparr>,
            [ConsoleError ''Error performing search:''])"
proof -
  have "stage_hits env (fl_closure (flights s ! k)) db c (fl_results (flights s ! k)) = None"
    using assms(3) by (cases c) (simp_all add: stage_hits_def rejects_def)
  then show ?thesis
    using assms(1,2) by (simp add: performSearch_resume_def Let_def)
qed

lemma failed_search_run:
  assumes "debounceTimer s = Some cl" and "trim (cl_query cl) \<noteq> []"
    and "\<exists>c\<in>set (asked (cl_filters cl)). rejects db c"
    and "k = length (flights s)"
  shows "search_run env [DebounceTimerFires, FetchSettles k db, FetchSettles k db, FetchSettles k db] s
           = (s\<lparr>debounceTimer := None, isSearching := False, showResults := True\<rparr>,
              map Fetch (through_first (rejects db) (asked (cl_filters cl)))
                @ [ConsoleError ''Error performing search:''])"
proof (cases "f_type (cl_filters cl)")
  case AllTypes
  then show ?thesis
    using assms
    by (cases "db_projects db"; cases "db_services db"; cases "db_posts db")
       (simp_all add: asked_cases search_step_def performSearch_begin_def performSearch_resume_def
          stage_hits_def rejects_def remove_nth_def Let_def nth_append)
next
  case ProjectType
  then show ?thesis
    using assms
    by (cases "db_projects db")
       (simp_all add: asked_cases search_step_def performSearch_begin_def performSearch_resume_def
          stage_hits_def rejects_def remove_nth_def Let_def nth_append)
next
  case ServiceType
  then show ?thesis
    using assms
    by (cases "db_services db")
       (simp_all add: asked_cases search_step_def performSearch_begin_def performSearch_resume_def
          stage_hits_def rejects_def remove_nth_def Let_def nth_append)
next
  case PostType
  then show ?thesis
    using assms
    by (cases "db_posts db")
       (simp_all add: asked_cases search_step_def performSearch_begin_def performSearch_resume_def
          stage_hits_def rejects_def remove_nth_def Let_def nth_append)
qed

text \<open>
  Claim C3, as the code has it. The three fetches sit in one \<^verbatim>\<open>try\<close> block. Let the
  timeout fire for a query that is not blank, and let the fetches of the search settle with
  a store in which a collection that the type filter asks for rejects. Then the calls made
  are the fetches of the collections asked for, in their order, up to and including the
  first that rejects, followed by one log entry; and the state differs from the state before
  only in the timeout being spent, the panel being shown and the searching flag being
  cleared: the result list and the history are what they were, and no counter is written.
  Whatever else is under way, a rejected fetch ends its search with the log entry alone.
\<close>

theorem failed_fetch_aborts_search:
  assumes "debounceTimer s = Some cl" and "trim (cl_query cl) \<noteq> []"
    and "\<exists>c\<in>set (asked (cl_filters cl)). rejects db c"
  shows "search_run env
           [DebounceTimerFires, FetchSettles (length (flights s)) db,
            FetchSettles (length (flights s)) db, FetchSettles (length (flights s)) db] s
           = (s\<lparr>debounceTimer := None, isSearching := False, showResults := True\<rparr>,
              map Fetch (through_first (rejects db) (asked (cl_filters cl)))
                @ [ConsoleError ''Error performing search:''])
       \<and> (\<forall>s' k c rest.
             k < length (flights s') \<and> fl_todo (flights s' ! k) = c # rest \<and> rejects db c \<longrightarrow>
             search_step env (FetchSettles k db) s'
               = (s'\<lparr>flights := remove_nth k (flights s'), isSearching := False\<rparr>,
                  [ConsoleError ''Error performing search:'']))"
proof -
  have "search_step env (FetchSettles k db) s'
          = (s'\<lparr>flights := remove_nth k (flights s'), isSearching := False\<rparr>,
             [ConsoleError ''Error performing search:''])"
    if "k < length (flights s')" "fl_todo (flights s' ! k) = c # rest" "rejects db c"
    for s' k c rest
    using performSearch_resume_rejected [OF that] by (simp add: search_step_def)
  with failed_search_run [OF assms refl] show ?thesis by blast
qed

lemma auto_pending_timer: "debounceTimer auto_pending_state = Some auto_closure"
  by code_simp

lemma auto_pending_flights: "flights auto_pending_state = []"
  by code_simp

lemma auto_closure_not_blank: "trim (cl_query auto_closure) \<noteq> []"
  by code_simp

lemma auto_closure_asked: "asked (cl_filters auto_closure) = [Projects, Services, CommunityPosts]"
  by code_simp

lemma services_down_rejects:
  "\<not> rejects db_services_down Projects \<and> rejects db_services_down Services"
  by code_simp

theorem failed_fetch_aborts_search_witness:
  "debounceTimer auto_pending_state = Some auto_closure
   \<and> trim (cl_query auto_closure) \<noteq> []
   \<and> asked (cl_filters auto_closure) = [Projects, Services, CommunityPosts]
   \<and> \<not> rejects db_services_down Projects \<and> rejects db_services_down Services
   \<and> search_run sample_search_env
        [DebounceTimerFires, FetchSettles 0 db_services_down,
         FetchSettles 0 db_services_down, FetchSettles 0 db_services_down] auto_pending_state
       = (auto_pending_state\<lparr>debounceTimer := None, isSearching := False, showResults := True\<rparr>,
          [Fetch Projects, Fetch Services, ConsoleError ''Error performing search:''])"
proof -
  have h3: "\<exists>c\<in>set (asked (cl_filters auto_closure)). rejects db_services_down c"
    using services_down_rejects by (simp add: auto_closure_asked)
  have fetched: "through_first (rejects db_services_down) (asked (cl_filters auto_closure))
                   = [Projects, Services]"
    using services_down_rejects by (simp add: auto_closure_asked)
  from failed_fetch_aborts_search [OF auto_pending_timer auto_closure_not_blank h3,
      of sample_search_env]
  have "search_run sample_search_env
        [DebounceTimerFires, FetchSettles 0 db_services_down,
         FetchSettles 0 db_services_down, FetchSettles 0 db_services_down] auto_pending_state
       = (auto_pending_state\<lparr>debounceTimer := None, isSearching := False, showResults := True\<rparr>,
          [Fetch Projects, Fetch Services, ConsoleError ''Error performing search:''])"
    unfolding auto_pending_flights fetched by simp
  with auto_pending_timer auto_closure_not_blank auto_closure_asked services_down_rejects
  show ?thesis by blast
qed

text \<open>
  Claim C3 as stated fails. With the services fetch rejecting and a project that matches
  the query \<^verbatim>\<open>auto\<close>, the result list after the search is the empty list it was before,
  while the partial results of the other collections would be the one project.
\<close>

theorem partial_results_counterexample:
  "searchResults (fst (search_run sample_search_env
        [DebounceTimerFires, FetchSettles 0 db_services_down,
         FetchSettles 0 db_services_down, FetchSettles 0 db_services_down] auto_pending_state)) = []
   \<and> map r_id (spec_partial_results sample_search_env auto_closure db_services_down) = [''p1'']"
  by code_simp

section \<open>Short queries and the history\<close>

lemma fst_search_run_Cons:
  "fst (search_run env (ev # evs) s) = fst (search_run env evs (fst (search_step env ev s)))"
  by (simp split: prod.splits)

lemma fst_search_run_append:
  "fst (search_run env (xs @ ys) s) = fst (search_run env ys (fst (search_run env xs s)))"
  by (induction xs arbitrary: s) (simp_all add: fst_search_run_Cons del: search_run.simps(2))

text \<open>
  Claim C8. Changing the query to a text whose trimmed length is at most 2 makes no call
  to the outside, empties the result list, hides the panel and leaves no timeout pending,
  so that the time of the debounce passing starts no search. The searches under way, which
  were started before, are left as they are.
\<close>

theorem short_query_clears_without_fetch:
  assumes "length (trim q) \<le> 2" and "q \<noteq> searchQuery s"
  shows "snd (search_step env (SetSearchQuery q) s) = []
       \<and> searchResults (fst (search_step env (SetSearchQuery q) s)) = []
       \<and> \<not> showResults (fst (search_step env (SetSearchQuery q) s))
       \<and> debounceTimer (fst (search_step env (SetSearchQuery q) s)) = None
       \<and> search_step env DebounceTimerFires (fst (search_step env (SetSearchQuery q) s))
           = (fst (search_step env (SetSearchQuery q) s), [])
       \<and> flights (fst (search_step env (SetSearchQuery q) s)) = flights s"
  using assms by (simp add: search_step_def searchEffect_def Let_def)

lemma found_state_facts:
  "searchResults found_state \<noteq> [] \<and> showResults found_state \<and> ''ab '' \<noteq> searchQuery found_state"
  by code_simp

lemma trim_ab: "length (trim ''ab '') \<le> 2"
  by code_simp

theorem short_query_clears_without_fetch_witness:
  "length (trim ''ab '') \<le> 2
   \<and> searchResults found_state \<noteq> [] \<and> showResults found_state
   \<and> ''ab '' \<noteq> searchQuery found_state
   \<and> snd (search_step sample_search_env (SetSearchQuery ''ab '') found_state) = []
   \<and> searchResults (fst (search_step sample_search_env (SetSearchQuery ''ab '') found_state)) = []
   \<and> \<not> showResults (fst (search_step sample_search_env (SetSearchQuery ''ab '') found_state))
   \<and> debounceTimer (fst (search_step sample_search_env (SetSearchQuery ''ab '') found_state)) = None
   \<and> search_step sample_search_env DebounceTimerFires
        (fst (search_step sample_search_env (SetSearchQuery ''ab '') found_state))
       = (fst (search_step sample_search_env (SetSearchQuery ''ab '') found_state), [])"
proof -
  have h2: "''ab '' \<noteq> searchQuery found_state"
    using found_state_facts by blast
  from short_query_clears_without_fetch [OF trim_ab h2, of sample_search_env]
    trim_ab found_state_facts
  show ?thesis by blast
qed

lemma finish_search_state:
  "searchHistory (fst (finish_search env cl r s))
     = take 10 (cl_query cl # filter (\<lambda>h. h \<noteq> cl_query cl) (cl_history cl))
   \<and> flights (fst (finish_search env cl r s)) = flights s
   \<and> debounceTimer (fst (finish_search env cl r s)) = debounceTimer s
   \<and> filters_of (fst (finish_search env cl r s)) = filters_of s
   \<and> searchQuery (fst (finish_search env cl r s)) = searchQuery s"
  by (simp add: finish_search_def saveSearchToHistory_def Let_def)

lemma long_query_cycle:
  assumes "2 < length (trim q)" and "q \<noteq> searchQuery s"
    and "db_projects db \<noteq> None" "db_services db \<noteq> None" "db_posts db \<noteq> None"
    and "flights s = []" "f_type (filters_of s) = AllTypes"
  shows "searchHistory (fst (search_run env (uninterrupted_search db q) s))
           = take 10 (q # filter (\<lambda>h. h \<noteq> q) (searchHistory s))
       \<and> flights (fst (search_run env (uninterrupted_search db q) s)) = []
       \<and> f_type (filters_of (fst (search_run env (uninterrupted_search db q) s))) = AllTypes
       \<and> searchQuery (fst (search_run env (uninterrupted_search db q) s)) = q"
proof -
  have t: "trim q \<noteq> []" using assms(1) by auto
  obtain ps ss cs where db: "db_projects db = Some ps" "db_services db = Some ss" "db_posts db = Some cs"
    using assms(3-5) by auto
  show ?thesis
    unfolding uninterrupted_search_def fst_search_run_Cons
    using assms(1,2,6,7) t db
    by (simp add: search_step_def searchEffect_def performSearch_begin_def performSearch_resume_def
          asked_def stage_hits_def remove_nth_def finish_search_state Let_def)
qed

lemma short_query_cycle:
  assumes "length (trim q) \<le> 2" and "q \<noteq> searchQuery s" and "flights s = []"
  shows "searchHistory (fst (search_run env (uninterrupted_search db q) s)) = searchHistory s
       \<and> flights (fst (search_run env (uninterrupted_search db q) s)) = []
       \<and> filters_of (fst (search_run env (uninterrupted_search db q) s)) = filters_of s
       \<and> searchQuery (fst (search_run env (uninterrupted_search db q) s)) = q"
  unfolding uninterrupted_search_def fst_search_run_Cons
  using assms
  by (simp add: search_step_def searchEffect_def performSearch_resume_def Let_def)

lemma trim_a: "length (trim ''a'') \<le> 2"
  by code_simp

lemma trim_automation: "2 < length (trim ''automation'')"
  by code_simp

lemma trim_bot: "2 < length (trim ''bot'')"
  by code_simp

lemma history_update_distinct:
  "distinct h \<Longrightarrow> distinct (take n (q # filter (\<lambda>x. x \<noteq> q) h))"
  by (rule distinct_take) simp

lemma history_update_ok:
  assumes "history_ok h"
  shows "history_ok (take 10 (q # filter (\<lambda>x. x \<noteq> q) h))"
  unfolding history_ok_def
  using assms history_update_distinct [of h 10 q] by (simp add: history_ok_def)

lemma list_all_remove_nth: "list_all P xs \<Longrightarrow> list_all P (remove_nth k xs)"
  by (auto simp: remove_nth_def list_all_iff dest: in_set_takeD in_set_dropD)

lemma list_all_update: "list_all P xs \<Longrightarrow> P x \<Longrightarrow> list_all P (xs[k := x])"
  by (auto simp: list_all_iff dest!: subsetD [OF set_update_subset_insert])

lemma list_all_nth: "list_all P xs \<Longrightarrow> k < length xs \<Longrightarrow> P (xs ! k)"
  by (simp add: list_all_length)

lemma finish_search_ok:
  assumes "histories_ok s" "history_ok (cl_history cl)"
  shows "histories_ok (fst (finish_search env cl r s))"
  using assms history_update_ok [OF assms(2), of "cl_query cl"]
  by (simp add: histories_ok_def finish_search_state del: take_Suc_Cons take_Cons_numeral)

lemma searchEffect_ok:
  assumes "histories_ok s"
  shows "histories_ok (searchEffect s)"
  using assms by (simp add: histories_ok_def searchEffect_def Let_def)

lemma performSearch_begin_ok:
  assumes "histories_ok s" "history_ok (cl_history cl)"
  shows "histories_ok (fst (performSearch_begin env cl s))"
proof (cases "trim (cl_query cl) = []")
  case True
  then show ?thesis using assms by (simp add: performSearch_begin_def)
next
  case False
  have s1: "histories_ok (s\<lparr>isSearching := True, showResults := True\<rparr>)"
    using assms(1) by (simp add: histories_ok_def)
  show ?thesis
  proof (cases "asked (cl_filters cl)")
    case Nil
    then show ?thesis
      using False finish_search_ok [OF s1 assms(2)] by (simp add: performSearch_begin_def Let_def)
  next
    case (Cons c rest)
    then show ?thesis
      using False assms by (simp add: performSearch_begin_def Let_def histories_ok_def)
  qed
qed

lemma performSearch_resume_ok:
  assumes "histories_ok s"
  shows "histories_ok (fst (performSearch_resume env db k s))"
proof (cases "k < length (flights s)")
  case False
  then show ?thesis using assms by (simp add: performSearch_resume_def)
next
  case True
  let ?fl = "flights s ! k"
  have all: "list_all (\<lambda>fl. history_ok (cl_history (fl_closure fl))) (flights s)"
    using assms by (simp add: histories_ok_def)
  have cl: "history_ok (cl_history (fl_closure ?fl))"
    using list_all_nth [OF all True] .
  have removed: "histories_ok (s\<lparr>flights := remove_nth k (flights s)\<rparr>)"
    using assms list_all_remove_nth [OF all] by (simp add: histories_ok_def)
  show ?thesis
  proof (cases "fl_todo ?fl")
    case Nil
    then show ?thesis using True removed by (simp add: performSearch_resume_def Let_def)
  next
    case (Cons c rest)
    show ?thesis
    proof (cases "stage_hits env (fl_closure ?fl) db c (fl_results ?fl)")
      case None
      then show ?thesis
        using True Cons removed by (simp add: performSearch_resume_def Let_def histories_ok_def)
    next
      case (Some results)
      show ?thesis
      proof (cases rest)
        case Nil
        then show ?thesis
          using True Cons Some finish_search_ok [OF removed cl]
          by (simp add: performSearch_resume_def Let_def)
      next
        case (Cons c' rest')
        have "list_all (\<lambda>fl. history_ok (cl_history (fl_closure fl)))
                ((flights s)[k := ?fl\<lparr>fl_results := results, fl_todo := rest\<rparr>])"
          by (rule list_all_update [OF all]) (simp add: cl)
        then show ?thesis
          using True \<open>fl_todo ?fl = c # rest\<close> Some Cons assms
          by (simp add: performSearch_resume_def Let_def histories_ok_def)
      qed
    qed
  qed
qed

lemma search_step_ok:
  assumes "histories_ok s"
  shows "histories_ok (fst (search_step env ev s))"
proof (cases ev)
  case (SetSearchQuery q)
  have "histories_ok (s\<lparr>searchQuery := q\<rparr>)" using assms by (simp add: histories_ok_def)
  then show ?thesis using SetSearchQuery assms by (simp add: search_step_def searchEffect_ok)
next
  case (SetFilters f)
  have "histories_ok (s\<lparr>filters_of := f\<rparr>)" using assms by (simp add: histories_ok_def)
  then show ?thesis using SetFilters by (simp add: search_step_def searchEffect_ok)
next
  case ResultClicked
  have "histories_ok (s\<lparr>showResults := False\<rparr>)"
    and "histories_ok (s\<lparr>showResults := False, searchQuery := []\<rparr>)"
    using assms by (simp_all add: histories_ok_def)
  then show ?thesis using ResultClicked by (simp add: search_step_def searchEffect_ok)
next
  case InputFocused
  then show ?thesis using assms by (simp add: search_step_def histories_ok_def)
next
  case DebounceTimerFires
  show ?thesis
  proof (cases "debounceTimer s")
    case None
    then show ?thesis using DebounceTimerFires assms by (simp add: search_step_def)
  next
    case (Some cl)
    have "histories_ok (s\<lparr>debounceTimer := None\<rparr>)" "history_ok (cl_history cl)"
      using assms Some by (simp_all add: histories_ok_def)
    then show ?thesis
      using DebounceTimerFires Some by (simp add: search_step_def performSearch_begin_ok)
  qed
next
  case (FetchSettles k db)
  then show ?thesis using assms by (simp add: search_step_def performSearch_resume_ok)
qed

lemma search_run_ok:
  assumes "histories_ok s"
  shows "histories_ok (fst (search_run env evs s))"
  using assms
proof (induction evs arbitrary: s)
  case Nil
  then show ?case by simp
next
  case (Cons ev evs)
  show ?case
    unfolding fst_search_run_Cons
    by (rule Cons.IH) (rule search_step_ok [OF Cons.prems])
qed

lemma initial_ok: "histories_ok initial_search_state"
  by (simp add: histories_ok_def history_ok_def initial_search_state_def)

text \<open>
  Claim C9. From the empty history, with every fetch resolving, the queries \<^verbatim>\<open>a\<close>,
  \<^verbatim>\<open>automation\<close>, \<^verbatim>\<open>bot\<close>, \<^verbatim>\<open>automation\<close>, each searched to its end before the next is
  typed, leave the history \<^verbatim>\<open>automation\<close>, \<^verbatim>\<open>bot\<close>; and after any sequence of events,
  searches that overlap included, the history has at most ten entries, none of them twice.
\<close>

theorem history_after_search_sequence:
  assumes "db_projects db \<noteq> None" "db_services db \<noteq> None" "db_posts db \<noteq> None"
  shows "searchHistory (fst (search_run env
            (uninterrupted_search db ''a'' @ uninterrupted_search db ''automation''
               @ uninterrupted_search db ''bot'' @ uninterrupted_search db ''automation'')
            initial_search_state))
          = [''automation'', ''bot'']
       \<and> (\<forall>evs. length (searchHistory (fst (search_run env evs initial_search_state))) \<le> 10
                \<and> distinct (searchHistory (fst (search_run env evs initial_search_state))))"
proof -
  let ?s1 = "fst (search_run env (uninterrupted_search db ''a'') initial_search_state)"
  let ?s2 = "fst (search_run env (uninterrupted_search db ''automation'') ?s1)"
  let ?s3 = "fst (search_run env (uninterrupted_search db ''bot'') ?s2)"
  let ?s4 = "fst (search_run env (uninterrupted_search db ''automation'') ?s3)"
  have s0: "searchHistory initial_search_state = []" "flights initial_search_state = []"
      "f_type (filters_of initial_search_state) = AllTypes" "searchQuery initial_search_state = []"
    by (simp_all add: initial_search_state_def)
  have s1: "searchHistory ?s1 = []" "flights ?s1 = []" "f_type (filters_of ?s1) = AllTypes"
      "searchQuery ?s1 = ''a''"
    using short_query_cycle [OF trim_a _ s0(2), of env db] s0 by simp_all
  have s2: "searchHistory ?s2 = [''automation'']" "flights ?s2 = []"
      "f_type (filters_of ?s2) = AllTypes" "searchQuery ?s2 = ''automation''"
    using long_query_cycle [OF trim_automation _ assms s1(2,3)] s1(1,4) by simp_all
  have s3: "searchHistory ?s3 = [''bot'', ''automation'']" "flights ?s3 = []"
      "f_type (filters_of ?s3) = AllTypes" "searchQuery ?s3 = ''bot''"
    using long_query_cycle [OF trim_bot _ assms s2(2,3)] s2(1,4) by simp_all
  have s4: "searchHistory ?s4 = [''automation'', ''bot'']"
    using long_query_cycle [OF trim_automation _ assms s3(2,3)] s3(1,4) by simp
  have first: "searchHistory (fst (search_run env
            (uninterrupted_search db ''a'' @ uninterrupted_search db ''automation''
               @ uninterrupted_search db ''bot'' @ uninterrupted_search db ''automation'')
            initial_search_state)) = [''automation'', ''bot'']"
    unfolding fst_search_run_append by (rule s4)
  have "length (searchHistory (fst (search_run env evs initial_search_state))) \<le> 10
      \<and> distinct (searchHistory (fst (search_run env evs initial_search_state)))" for evs
    using search_run_ok [OF initial_ok, of env evs] by (simp add: histories_ok_def history_ok_def)
  with first show ?thesis by blast
qed

lemma db_all_up_resolves:
  "db_projects db_all_up \<noteq> None \<and> db_services db_all_up \<noteq> None \<and> db_posts db_all_up \<noteq> None"
  by (simp add: db_all_up_def)

theorem history_after_search_sequence_witness:
  "db_projects db_all_up \<noteq> None \<and> db_services db_all_up \<noteq> None \<and> db_posts db_all_up \<noteq> None
   \<and> searchHistory (fst (search_run sample_search_env
            (uninterrupted_search db_all_up ''a'' @ uninterrupted_search db_all_up ''automation''
               @ uninterrupted_search db_all_up ''bot''
               @ uninterrupted_search db_all_up ''automation'')
            initial_search_state))
          = [''automation'', ''bot'']"
proof -
  have h1: "db_projects db_all_up \<noteq> None" and h2: "db_services db_all_up \<noteq> None"
    and h3: "db_posts db_all_up \<noteq> None"
    using db_all_up_resolves by simp_all
  from history_after_search_sequence [OF h1 h2 h3, of sample_search_env] h1 h2 h3
  show ?thesis by blast
qed

text \<open>
  The assumption that the searches do not overlap is needed. A search writes the history
  from the list that its closure has captured: when \<^verbatim>\<open>bot\<close> is typed and its timeout
  fires while the search for \<^verbatim>\<open>automation\<close> still awaits a fetch, the search for
  \<^verbatim>\<open>bot\<close> ends with the history \<^verbatim>\<open>bot\<close> alone.
\<close>

lemma overlapping_searches_history:
  "searchHistory (fst (search_run sample_search_env
       [SetSearchQuery ''automation'', DebounceTimerFires,
        SetSearchQuery ''bot'', DebounceTimerFires,
        FetchSettles 0 db_all_up, FetchSettles 0 db_all_up, FetchSettles 0 db_all_up,
        FetchSettles 0 db_all_up, FetchSettles 0 db_all_up, FetchSettles 0 db_all_up]
       initial_search_state)) = [''bot'']"
  by code_simp

section \<open>The AI calls and the chat widget\<close>





lemma not_json: "json_parse (trim ''not json'') = None"
  by code_simp

lemma getAiConsultation_fails:
  assumes "ai env = None
         \<or> (\<exists>client. ai env = Some client
              \<and> (client (consultation_request problem) = Rejected
                 \<or> (\<exists>t. client (consultation_request problem) = Responded t
                       \<and> JSON_parse env (trim t) = None)))"
  shows "fst (getAiConsultation env problem) = JNull"
  using assms by (auto simp: getAiConsultation_def Let_def)

lemma handleConsultationSubmit_null:
  assumes "fst (getAiConsultation env (consultationProblem s)) = JNull"
  shows "fst (handleConsultationSubmit env s) =
           s\<lparr>view := ConsultationInputView, consultationResult := None, isLoading := False,
              isConvoSaved := False,
              chatHistory := chatHistory s @
                [\<lparr>role_of = User, parts = [''Business Problem: '' @ consultationProblem s]\<rparr>]\<rparr>"
  using assms
  by (cases "getAiConsultation env (consultationProblem s)")
     (simp add: handleConsultationSubmit_def consultation_pending_def Let_def setView_def truthy_def)

lemma consultation_pending_render: "renderContent (consultation_pending s) = LoadingSpinner"
  by (simp add: consultation_pending_def renderContent_def setView_def)

text \<open>
  Claim C6. When the consultation call has no client, is rejected, or answers with a text
  that \<^verbatim>\<open>JSON.parse\<close> refuses, submitting the consultation ends in the input view with no
  stored proposal and the loading flag cleared, and the widget shows the input form; while
  the call is awaited it shows the loading spinner. No proposal is shown at either moment.
\<close>

theorem failed_consultation_returns_to_input:
  assumes "ai env = None
         \<or> (\<exists>client. ai env = Some client
              \<and> (client (consultation_request (consultationProblem s)) = Rejected
                 \<or> (\<exists>t. client (consultation_request (consultationProblem s)) = Responded t
                       \<and> JSON_parse env (trim t) = None)))"
  shows "view (fst (handleConsultationSubmit env s)) = ConsultationInputView
       \<and> consultationResult (fst (handleConsultationSubmit env s)) = None
       \<and> \<not> isLoading (fst (handleConsultationSubmit env s))
       \<and> renderContent (fst (handleConsultationSubmit env s)) = ConsultationForm (consultationProblem s)
       \<and> renderContent (consultation_pending s) = LoadingSpinner"
proof -
  have "fst (getAiConsultation env (consultationProblem s)) = JNull"
    by (rule getAiConsultation_fails [OF assms])
  then have "fst (handleConsultationSubmit env s) =
           s\<lparr>view := ConsultationInputView, consultationResult := None, isLoading := False,
              isConvoSaved := False,
              chatHistory := chatHistory s @
                [\<lparr>role_of = User, parts = [''Business Problem: '' @ consultationProblem s]\<rparr>]\<rparr>"
    by (rule handleConsultationSubmit_null)
  then have "view (fst (handleConsultationSubmit env s)) = ConsultationInputView
       \<and> consultationResult (fst (handleConsultationSubmit env s)) = None
       \<and> \<not> isLoading (fst (handleConsultationSubmit env s))
       \<and> renderContent (fst (handleConsultationSubmit env s)) = ConsultationForm (consultationProblem s)"
    by (simp add: renderContent_def)
  then show ?thesis
    using consultation_pending_render [of s] by blast
qed

theorem failed_consultation_returns_to_input_witness:
  "ai (sample_env (Some (ai_answers ''not json''))) = Some (ai_answers ''not json'')
   \<and> ai_answers ''not json'' (consultation_request (consultationProblem consulting_state))
       = Responded ''not json''
   \<and> JSON_parse (sample_env (Some (ai_answers ''not json''))) (trim ''not json'') = None
   \<and> view (fst (handleConsultationSubmit (sample_env (Some (ai_answers ''not json''))) consulting_state))
       = ConsultationInputView
   \<and> consultationResult
       (fst (handleConsultationSubmit (sample_env (Some (ai_answers ''not json''))) consulting_state))
       = None
   \<and> renderContent
       (fst (handleConsultationSubmit (sample_env (Some (ai_answers ''not json''))) consulting_state))
       = ConsultationForm (consultationProblem consulting_state)"
proof -
  let ?env = "sample_env (Some (ai_answers ''not json''))"
  have h1: "ai ?env = Some (ai_answers ''not json'')" by (simp add: sample_env_def)
  have h2: "ai_answers ''not json'' (consultation_request (consultationProblem consulting_state))
              = Responded ''not json''"
    by (simp add: ai_answers_def)
  have h3: "JSON_parse ?env (trim ''not json'') = None"
    using not_json by (simp add: sample_env_def)
  have h: "ai ?env = None
         \<or> (\<exists>client. ai ?env = Some client
              \<and> (client (consultation_request (consultationProblem consulting_state)) = Rejected
                 \<or> (\<exists>t. client (consultation_request (consultationProblem consulting_state)) = Responded t
                       \<and> JSON_parse ?env (trim t) = None)))"
    using h1 h2 h3 by blast
  from failed_consultation_returns_to_input [OF h] h1 h2 h3 show ?thesis by blast
qed

lemma analyze_calls_simps:
  "analyze_calls [] = []"
  "analyze_calls (c # cs) = (case c of AnalyzeChat h \<Rightarrow> [h] | _ \<Rightarrow> []) @ analyze_calls cs"
  "analyze_calls (xs @ ys) = analyze_calls xs @ analyze_calls ys"
  by (simp_all add: analyze_calls_def)

lemma generate_calls_simps:
  "generate_calls [] = []"
  "generate_calls (c # cs) = (case c of GenerateContent r \<Rightarrow> [r] | _ \<Rightarrow> []) @ generate_calls cs"
  "generate_calls (xs @ ys) = generate_calls xs @ generate_calls ys"
  by (simp_all add: generate_calls_def)

lemma analyze_calls_of_analysis:
  "analyze_calls (snd (analyzeChatForLeadQualification env h)) = []"
  by (simp add: analyzeChatForLeadQualification_def analyze_calls_def Let_def
           split: option.splits gen_outcome.splits)

lemma generate_calls_of_analysis:
  "generate_calls (snd (analyzeChatForLeadQualification env h)) =
     (if h = [] \<or> ai env = None then [] else [qualification_request h])"
  by (simp add: analyzeChatForLeadQualification_def generate_calls_def Let_def
           split: option.splits gen_outcome.splits)

lemma resetChat_closed:
  "resetChat (s\<lparr>isOpen := False\<rparr>) =
     initial_chat_state\<lparr>isLoading := isLoading s, showInitialPopup := showInitialPopup s\<rparr>"
  by (simp add: resetChat_def setView_def initial_chat_state_def)

lemma handleCloseChat_state: "fst (handleCloseChat env s) = resetChat (s\<lparr>isOpen := False\<rparr>)"
  by (simp add: handleCloseChat_def Let_def split: prod.splits)

lemma handleCloseChat_analyze_calls:
  "analyze_calls (snd (handleCloseChat env s)) = (if chatHistory s = [] then [] else [chatHistory s])"
proof (cases "chatHistory s = []")
  case True
  then show ?thesis by (simp add: handleCloseChat_def analyze_calls_simps)
next
  case False
  obtain a cs where a: "analyzeChatForLeadQualification env (chatHistory s) = (a, cs)"
    by (cases "analyzeChatForLeadQualification env (chatHistory s)")
  have "analyze_calls cs = []"
    using analyze_calls_of_analysis [of env "chatHistory s"] a by simp
  then show ?thesis
    using False by (simp add: handleCloseChat_def Let_def a analyze_calls_simps)
qed

lemma handleCloseChat_generate_calls:
  "generate_calls (snd (handleCloseChat env s)) =
     (if chatHistory s = [] \<or> ai env = None then [] else [qualification_request (chatHistory s)])"
proof (cases "chatHistory s = []")
  case True
  then show ?thesis by (simp add: handleCloseChat_def generate_calls_simps)
next
  case False
  obtain a cs where a: "analyzeChatForLeadQualification env (chatHistory s) = (a, cs)"
    by (cases "analyzeChatForLeadQualification env (chatHistory s)")
  have "generate_calls cs = (if ai env = None then [] else [qualification_request (chatHistory s)])"
    using generate_calls_of_analysis [of env "chatHistory s"] a False by simp
  then show ?thesis
    using False by (simp add: handleCloseChat_def Let_def a generate_calls_simps)
qed

text \<open>
  Claim C7. Closing the chat, by the close button or by the round button while open, calls
  the lead qualification once with the whole transcript when the transcript is not empty and
  not at all when it is empty; the request reaches the AI at most once, and only when a
  client is configured. Whatever the qualification and the webhook do, the widget is closed
  and every cell of the chat session is back at its initial value; the loading flag and the
  welcome pop-up flag, which are not part of the session, are left as they are.
\<close>

theorem close_chat_qualifies_once_and_resets:
  "fst (handleCloseChat env s) =
     initial_chat_state\<lparr>isLoading := isLoading s, showInitialPopup := showInitialPopup s\<rparr>
   \<and> analyze_calls (snd (handleCloseChat env s)) =
       (if chatHistory s = [] then [] else [chatHistory s])
   \<and> generate_calls (snd (handleCloseChat env s)) =
       (if chatHistory s = [] \<or> ai env = None then []
        else [qualification_request (chatHistory s)])
   \<and> toggleChat env (s\<lparr>isOpen := True\<rparr>) = handleCloseChat env (s\<lparr>isOpen := True\<rparr>)"
  by (simp add: handleCloseChat_state resetChat_closed handleCloseChat_analyze_calls
        handleCloseChat_generate_calls toggleChat_def)

lemma talking_state_facts:
  "chatHistory talking_state = sample_transcript \<and> sample_transcript \<noteq> []
   \<and> \<not> isLoading talking_state \<and> \<not> showInitialPopup talking_state
   \<and> talking_state \<noteq> initial_chat_state"
  by (simp add: talking_state_def initial_chat_state_def sample_transcript_def)

lemma webhook_fails_there:
  "LogError ''Failed to process or send hot lead webhook:''
     \<in> set (snd (handleCloseChat (sample_env (Some (ai_answers hot_answer))) talking_state))"
  by code_simp

theorem close_chat_qualifies_once_and_resets_witness:
  "talking_state \<noteq> initial_chat_state
   \<and> LogError ''Failed to process or send hot lead webhook:''
       \<in> set (snd (handleCloseChat (sample_env (Some (ai_answers hot_answer))) talking_state))
   \<and> fst (handleCloseChat (sample_env (Some (ai_answers hot_answer))) talking_state)
       = initial_chat_state
   \<and> analyze_calls (snd (handleCloseChat (sample_env (Some (ai_answers hot_answer))) talking_state))
       = [sample_transcript]
   \<and> generate_calls (snd (handleCloseChat (sample_env (Some (ai_answers hot_answer))) talking_state))
       = [qualification_request sample_transcript]
   \<and> analyze_calls (snd (handleCloseChat (sample_env (Some (ai_answers hot_answer))) initial_chat_state))
       = []"
proof -
  let ?env = "sample_env (Some (ai_answers hot_answer))"
  have a: "ai ?env \<noteq> None" by (simp add: sample_env_def)
  have i: "initial_chat_state\<lparr>isLoading := False, showInitialPopup := False\<rparr> = initial_chat_state"
    by (simp add: initial_chat_state_def)
  have e: "chatHistory initial_chat_state = []" by (simp add: initial_chat_state_def)
  from close_chat_qualifies_once_and_resets [of ?env talking_state]
       close_chat_qualifies_once_and_resets [of ?env initial_chat_state]
       talking_state_facts webhook_fails_there a i e
  show ?thesis by simp
qed









end
